theory Spec2Isabelle
  imports Main "HOL-Library.AList" "HOL-Library.Sublist" "HOL-Library.Word"
begin

section \<open>The trashcan versioner of lib/versioner/trashcan.go\<close>

text \<open>
  The Go file holds one type, \<^verbatim>\<open>Trashcan\<close>, with a constructor \<^verbatim>\<open>NewTrashcan\<close> and the
  methods \<^verbatim>\<open>Archive\<close>, \<^verbatim>\<open>Serve\<close>, \<^verbatim>\<open>Stop\<close> and \<^verbatim>\<open>cleanoutArchive\<close>. All of them act on
  the world through the \<^verbatim>\<open>fs.Filesystem\<close> interface, through \<^verbatim>\<open>osutil.Rename\<close>, through the
  clock and through one channel. The methods are translated branch by branch below. The
  filesystem behind the interface is not part of the file: it is modelled here as a tree
  of named entries, together with an oracle of injected failures, and every operation on
  it says so in its comment.
\<close>

subsection \<open>Paths, errors and the tree of entries\<close>

text \<open>
  A path is the list of its components relative to the filesystem root, so that
  \<^verbatim>\<open>filepath.Join\<close> is concatenation and \<^verbatim>\<open>filepath.Dir\<close> drops the last component. The
  empty list is the root itself; as the Go string of \<^verbatim>\<open>currentDir\<close> it is \<^verbatim>\<open>""\<close>.
\<close>

type_synonym path = "string list"

definition filepath_Join :: "path \<Rightarrow> path \<Rightarrow> path" where
  "filepath_Join a b = a @ b"

definition filepath_Dir :: "path \<Rightarrow> path" where
  "filepath_Dir p = butlast p"

text \<open>The string \<^verbatim>\<open>".stversions"\<close> of lines 58 and 127.\<close>

definition versionsDir :: path where
  "versionsDir = [''.stversions'']"

datatype error = ENOENT | EEXIST | ENOTDIR | EISDIR | ENOTEMPTY | EINVAL | EACCES | EPERM | EIO

text \<open>\<^verbatim>\<open>fs.IsNotExist\<close> and \<^verbatim>\<open>fs.IsExist\<close>, as the Go library classifies error numbers.\<close>

definition IsNotExist :: "error \<Rightarrow> bool" where
  "IsNotExist e = (e = ENOENT)"

definition IsExist :: "error \<Rightarrow> bool" where
  "IsExist e = (e = EEXIST \<or> e = ENOTEMPTY)"

text \<open>
  An entry is a regular file with its content and its access and modification times, a
  symbolic link with its modification time, or a directory with its entries in the order
  in which the directory lists them. Times are nanoseconds as integers. Directory times
  are left out: the module never reads them. The target of a link lies outside the tree,
  so an operation that follows a link finds nothing there.
\<close>

datatype node =
    File (content: string) (atime: int) (mtime: int)
  | Symlink (mtime: int)
  | Directory (entries: "(string \<times> node) list")

text \<open>
  Every operation of the interface can also fail for a reason outside the tree
  (permissions, a failing device). The oracle \<open>faults\<close> gives, for an operation and the
  path it is called on, the error it is refused with, if any.
\<close>

datatype fsop = OpLstat | OpStat | OpMkdirAll | OpHide | OpRename | OpChtimes | OpRemove | OpDirNames

record filesystem =
  root :: node
  faults :: "fsop \<Rightarrow> path \<Rightarrow> error option"

text \<open>What \<^verbatim>\<open>fs.FileInfo\<close> tells the module: \<^verbatim>\<open>IsDir\<close>, \<^verbatim>\<open>IsSymlink\<close> and \<^verbatim>\<open>ModTime\<close>.\<close>

record fileinfo =
  IsDir :: bool
  IsSymlink :: bool
  ModTime :: int

fun info_of :: "node \<Rightarrow> fileinfo" where
  "info_of (File c a m) = \<lparr>IsDir = False, IsSymlink = False, ModTime = m\<rparr>"
| "info_of (Symlink m) = \<lparr>IsDir = False, IsSymlink = True, ModTime = m\<rparr>"
| "info_of (Directory es) = \<lparr>IsDir = True, IsSymlink = False, ModTime = 0\<rparr>"

definition no_info :: fileinfo where
  "no_info = \<lparr>IsDir = False, IsSymlink = False, ModTime = 0\<rparr>"

text \<open>
  Following a path from a node. A missing name is \<open>ENOENT\<close>, a regular file in the middle
  of the path is \<open>ENOTDIR\<close>, a link in the middle leads out of the tree.
\<close>

fun lookup :: "node \<Rightarrow> path \<Rightarrow> error + node" where
  "lookup n [] = Inr n"
| "lookup (Directory es) (x # p) =
     (case map_of es x of None \<Rightarrow> Inl ENOENT | Some c \<Rightarrow> lookup c p)"
| "lookup (File c a m) (x # p) = Inl ENOTDIR"
| "lookup (Symlink m) (x # p) = Inl ENOENT"

text \<open>
  Changing the directory entry a path names: \<open>f\<close> sees the entry (or \<open>None\<close>) and answers
  with an error, with \<open>None\<close> to unlink the name, or with the node to bind the name to.
  The root has no name, so it cannot be changed this way.
\<close>

fun modify :: "(node option \<Rightarrow> error + node option) \<Rightarrow> node \<Rightarrow> path \<Rightarrow> error + node" where
  "modify f n [] = Inl EINVAL"
| "modify f (Directory es) [x] =
     (case f (map_of es x) of
        Inl e \<Rightarrow> Inl e
      | Inr None \<Rightarrow> Inr (Directory (AList.delete x es))
      | Inr (Some c) \<Rightarrow> Inr (Directory (AList.update x c es)))"
| "modify f (Directory es) (x # y # p) =
     (case map_of es x of
        None \<Rightarrow> Inl ENOENT
      | Some c \<Rightarrow>
          (case modify f c (y # p) of
             Inl e \<Rightarrow> Inl e
           | Inr c' \<Rightarrow> Inr (Directory (AList.update x c' es))))"
| "modify f (File c a m) (x # p) = Inl ENOTDIR"
| "modify f (Symlink m) (x # p) = Inl ENOENT"


subsection \<open>The operations of \<^verbatim>\<open>fs.Filesystem\<close> and \<^verbatim>\<open>osutil.Rename\<close>\<close>

text \<open>
  Modelled from the spec: \<^verbatim>\<open>Lstat\<close>, "stat-without-following-links". The Go method is
  in lib/fs, which is not among the sources.
\<close>

definition Lstat :: "filesystem \<Rightarrow> path \<Rightarrow> error + fileinfo" where
  "Lstat fs p =
     (case faults fs OpLstat p of
        Some e \<Rightarrow> Inl e
      | None \<Rightarrow> (case lookup (root fs) p of Inl e \<Rightarrow> Inl e | Inr n \<Rightarrow> Inr (info_of n)))"

text \<open>
  Modelled from the spec: \<^verbatim>\<open>Stat\<close>, which follows a link at the end of the path; the
  target of a link is outside the tree, so there is nothing to report for it.
\<close>

definition Stat :: "filesystem \<Rightarrow> path \<Rightarrow> error + fileinfo" where
  "Stat fs p =
     (case faults fs OpStat p of
        Some e \<Rightarrow> Inl e
      | None \<Rightarrow>
          (case lookup (root fs) p of
             Inl e \<Rightarrow> Inl e
           | Inr (Symlink m) \<Rightarrow> Inl ENOENT
           | Inr n \<Rightarrow> Inr (info_of n)))"

text \<open>
  Modelled from the spec: \<^verbatim>\<open>MkdirAll\<close>, "create-directory-recursive". It creates every
  missing directory along the path, a new name going to the end of its directory's
  listing; it succeeds without a change on an existing directory and fails on a path
  that runs into a regular file or a link. The permission bits are not modelled.
\<close>

fun mkdirAll :: "node \<Rightarrow> path \<Rightarrow> error + node" where
  "mkdirAll (Directory es) [] = Inr (Directory es)"
| "mkdirAll (File c a m) [] = Inl ENOTDIR"
| "mkdirAll (Symlink m) [] = Inl EEXIST"
| "mkdirAll (Directory es) (x # p) =
     (case mkdirAll (case map_of es x of None \<Rightarrow> Directory [] | Some c \<Rightarrow> c) p of
        Inl e \<Rightarrow> Inl e
      | Inr c' \<Rightarrow> Inr (Directory (AList.update x c' es)))"
| "mkdirAll (File c a m) (x # p) = Inl ENOTDIR"
| "mkdirAll (Symlink m) (x # p) = Inl EEXIST"

definition MkdirAll :: "filesystem \<Rightarrow> path \<Rightarrow> error + filesystem" where
  "MkdirAll fs p =
     (case faults fs OpMkdirAll p of
        Some e \<Rightarrow> Inl e
      | None \<Rightarrow> (case mkdirAll (root fs) p of Inl e \<Rightarrow> Inl e | Inr r \<Rightarrow> Inr (fs\<lparr>root := r\<rparr>)))"

text \<open>
  Modelled from the spec: \<^verbatim>\<open>Hide\<close>, "mark-directory-hidden". The mark is not part of the
  modelled tree, so only the failure is.
\<close>

definition Hide :: "filesystem \<Rightarrow> path \<Rightarrow> error + filesystem" where
  "Hide fs p = (case faults fs OpHide p of Some e \<Rightarrow> Inl e | None \<Rightarrow> Inr fs)"

text \<open>
  Modelled from the spec: \<^verbatim>\<open>Rename\<close> of \<^verbatim>\<open>fs.Filesystem\<close>, the "atomic rename/move",
  which is \<^verbatim>\<open>os.Rename\<close> of the Go library. Either the whole move happens or the tree
  stays as it was. The node moves with everything below it. A destination that is a
  directory is refused as already existing; a regular file or a link at the destination
  is replaced, but not by a directory; the parent of the destination must exist;
  nothing moves below itself.
\<close>

definition place :: "node \<Rightarrow> node option \<Rightarrow> error + node option" where
  "place n old =
     (case old of
        None \<Rightarrow> Inr (Some n)
      | Some (Directory es) \<Rightarrow> Inl EEXIST
      | Some _ \<Rightarrow> (case n of Directory es' \<Rightarrow> Inl ENOTDIR | _ \<Rightarrow> Inr (Some n)))"

definition unlink :: "node option \<Rightarrow> error + node option" where
  "unlink old = (case old of None \<Rightarrow> Inl ENOENT | Some n \<Rightarrow> Inr None)"

definition fs_Rename :: "filesystem \<Rightarrow> path \<Rightarrow> path \<Rightarrow> error + filesystem" where
  "fs_Rename fs from to =
     (case faults fs OpRename from of
        Some e \<Rightarrow> Inl e
      | None \<Rightarrow>
          (case lookup (root fs) from of
             Inl e \<Rightarrow> Inl e
           | Inr n \<Rightarrow>
               (case lookup (root fs) to of
                  Inr (Directory es) \<Rightarrow> Inl EEXIST
                | _ \<Rightarrow>
                    if from = to then Inr fs
                    else if prefix from to then Inl EINVAL
                    else (case modify (place n) (root fs) to of
                            Inl e \<Rightarrow> Inl e
                          | Inr r1 \<Rightarrow>
                              (case modify unlink r1 from of
                                 Inl e \<Rightarrow> Inl e
                               | Inr r2 \<Rightarrow> Inr (fs\<lparr>root := r2\<rparr>))))))"

text \<open>
  Modelled from the spec: \<^verbatim>\<open>Chtimes\<close>, "set-modification-time". It sets both times of a
  regular file, has nothing to record for a directory, and follows a link out of the
  tree.
\<close>

definition set_times :: "int \<Rightarrow> int \<Rightarrow> node option \<Rightarrow> error + node option" where
  "set_times a m old =
     (case old of
        None \<Rightarrow> Inl ENOENT
      | Some (File c a' m') \<Rightarrow> Inr (Some (File c a m))
      | Some (Symlink m') \<Rightarrow> Inl ENOENT
      | Some (Directory es) \<Rightarrow> Inr (Some (Directory es)))"

definition Chtimes :: "filesystem \<Rightarrow> path \<Rightarrow> int \<Rightarrow> int \<Rightarrow> error + filesystem" where
  "Chtimes fs p a m =
     (case faults fs OpChtimes p of
        Some e \<Rightarrow> Inl e
      | None \<Rightarrow>
          (case modify (set_times a m) (root fs) p of
             Inl e \<Rightarrow> Inl e
           | Inr r \<Rightarrow> Inr (fs\<lparr>root := r\<rparr>)))"

text \<open>
  Modelled from the spec: \<^verbatim>\<open>Remove\<close>, "delete". It unlinks a regular file, a link or an
  empty directory, and fails on a directory that still has entries.
\<close>

definition remove_entry :: "node option \<Rightarrow> error + node option" where
  "remove_entry old =
     (case old of
        None \<Rightarrow> Inl ENOENT
      | Some (Directory es) \<Rightarrow> if es = [] then Inr None else Inl ENOTEMPTY
      | Some _ \<Rightarrow> Inr None)"

definition Remove :: "filesystem \<Rightarrow> path \<Rightarrow> error + filesystem" where
  "Remove fs p =
     (case faults fs OpRemove p of
        Some e \<Rightarrow> Inl e
      | None \<Rightarrow>
          (case modify remove_entry (root fs) p of
             Inl e \<Rightarrow> Inl e
           | Inr r \<Rightarrow> Inr (fs\<lparr>root := r\<rparr>)))"

text \<open>
  A call whose error the Go code drops: the filesystem is the new one when the call
  succeeded and the old one when it failed.
\<close>

definition ignoring_error :: "filesystem \<Rightarrow> error + filesystem \<Rightarrow> filesystem" where
  "ignoring_error fs r = (case r of Inl e \<Rightarrow> fs | Inr fs' \<Rightarrow> fs')"

text \<open>
  Modelled from the spec: \<^verbatim>\<open>osutil.Rename\<close> (lib/osutil is not among the sources), the
  move of the spec's step 5. It is the rename above followed, whether the rename
  succeeded or failed, by a \<^verbatim>\<open>Remove\<close> of the source whose error is dropped: the
  function is meant for committing temporary files and makes sure that the source does
  not stay behind. In this the model follows the function and not the spec's words, which
  have the original left in place. After a rename to another path that succeeded there
  is nothing left to remove. The permission bits the function adjusts around the rename
  are not modelled.
\<close>

definition Rename :: "filesystem \<Rightarrow> path \<Rightarrow> path \<Rightarrow> error option \<times> filesystem" where
  "Rename fs from to =
     (case fs_Rename fs from to of
        Inl err \<Rightarrow> (Some err, ignoring_error fs (Remove fs from))
      | Inr fs1 \<Rightarrow> (None, ignoring_error fs1 (Remove fs1 from)))"

text \<open>
  Modelled from the spec: \<^verbatim>\<open>Walk\<close>, the "recursive directory walk yielding (path,
  isDirectory, modTime, error) per entry with error-short-circuiting", a pre-order walk:
  a directory is yielded before its entries, and all that is below a directory before the
  directory's next sibling. The entries of a directory come in the order of its listing,
  files and directories mixed. A directory that cannot be listed is yielded a second
  time with the error, and an entry that cannot be examined is yielded with the error
  alone. The walk goes over the tree as it stands when the walk starts; the callback of
  this module removes only the entry it is called on or a directory that has no entries
  left, so it takes nothing away that the walk still has to yield.
\<close>

fun events_node :: "(fsop \<Rightarrow> path \<Rightarrow> error option) \<Rightarrow> path \<Rightarrow> node \<Rightarrow>
      (path \<times> fileinfo \<times> error option) list"
  and events_entries :: "(fsop \<Rightarrow> path \<Rightarrow> error option) \<Rightarrow> path \<Rightarrow> (string \<times> node) list \<Rightarrow>
      (path \<times> fileinfo \<times> error option) list" where
  "events_node flt p (Directory es) =
     (p, info_of (Directory es), None) #
       (case flt OpDirNames p of
          Some e \<Rightarrow> [(p, info_of (Directory es), Some e)]
        | None \<Rightarrow> events_entries flt p es)"
| "events_node flt p (File c a m) = [(p, info_of (File c a m), None)]"
| "events_node flt p (Symlink m) = [(p, info_of (Symlink m), None)]"
| "events_entries flt p [] = []"
| "events_entries flt p ((x, c) # es) =
     (case flt OpLstat (p @ [x]) of
        Some e \<Rightarrow> [(p @ [x], no_info, Some e)]
      | None \<Rightarrow> events_node flt (p @ [x]) c) @ events_entries flt p es"

text \<open>
  The callback is called on the yielded entries in turn, with the state of its closure
  passed along; the first error it returns ends the walk and is the walk's error.
\<close>

fun visit_all :: "(path \<Rightarrow> fileinfo \<Rightarrow> error option \<Rightarrow> 's \<Rightarrow> error option \<times> 's) \<Rightarrow>
      (path \<times> fileinfo \<times> error option) list \<Rightarrow> 's \<Rightarrow> error option \<times> 's" where
  "visit_all walkFn [] s = (None, s)"
| "visit_all walkFn ((p, info, err) # evs) s =
     (case walkFn p info err s of
        (Some e, s') \<Rightarrow> (Some e, s')
      | (None, s') \<Rightarrow> visit_all walkFn evs s')"

definition Walk :: "filesystem \<Rightarrow> path \<Rightarrow>
      (path \<Rightarrow> fileinfo \<Rightarrow> error option \<Rightarrow> 's \<Rightarrow> error option \<times> 's) \<Rightarrow> 's \<Rightarrow> error option \<times> 's" where
  "Walk fs rt walkFn s =
     (case faults fs OpLstat rt of
        Some e \<Rightarrow> walkFn rt no_info (Some e) s
      | None \<Rightarrow>
          (case lookup (root fs) rt of
             Inl e \<Rightarrow> walkFn rt no_info (Some e) s
           | Inr n \<Rightarrow> visit_all walkFn (events_node (faults fs) rt n) s))"

subsection \<open>The clock and \<^verbatim>\<open>strconv.Atoi\<close>\<close>

text \<open>
  An instant is its number of nanoseconds, an integer. A \<^verbatim>\<open>time.Duration\<close> is a signed
  64-bit count of nanoseconds and \<^verbatim>\<open>time.Hour\<close> is the constant below; the product of line
  132 is computed in 64 bits and wraps.
\<close>

definition Hour :: "64 word" where
  "Hour = 3600000000000"

definition cutoff_of :: "int \<Rightarrow> int \<Rightarrow> int" where
  "cutoff_of now days = now + sint ((word_of_int (- 24 * days) :: 64 word) * Hour)"

text \<open>
  \<^verbatim>\<open>strconv.Atoi\<close> of the Go library, through \<^verbatim>\<open>ParseInt\<close> and \<^verbatim>\<open>ParseUint\<close> in base 10.
  \<^verbatim>\<open>ParseUint\<close> reads the characters from the left: a character that is not a digit is
  a syntax error with the value 0, and a digit with which the number would leave the
  unsigned 64-bit range is a range error with the largest such number as the value, the
  rest of the string unread. \<^verbatim>\<open>ParseInt\<close> takes a sign off first, passes a syntax error
  on, and answers a magnitude outside the signed 64-bit range with a range error and
  the nearest bound as the value. The short-cut of \<^verbatim>\<open>Atoi\<close> for strings of fewer than
  19 characters gives the same results.
\<close>

datatype strconv_error = ErrSyntax | ErrRange

definition is_digit :: "char \<Rightarrow> bool" where
  "is_digit c = (48 \<le> (of_char c :: nat) \<and> (of_char c :: nat) \<le> 57)"

fun scan_digits :: "nat \<Rightarrow> string \<Rightarrow> nat \<times> strconv_error option" where
  "scan_digits n [] = (n, None)"
| "scan_digits n (c # cs) =
     (if \<not> is_digit c then (0, Some ErrSyntax)
      else if n \<ge> 1844674407370955162 then (2 ^ 64 - 1, Some ErrRange)
      else if 10 * n + (of_char c - 48) > 2 ^ 64 - 1 then (2 ^ 64 - 1, Some ErrRange)
      else scan_digits (10 * n + (of_char c - 48)) cs)"

definition ParseUint :: "string \<Rightarrow> nat \<times> strconv_error option" where
  "ParseUint s = (if s = [] then (0, Some ErrSyntax) else scan_digits 0 s)"

definition ParseInt :: "string \<Rightarrow> int \<times> strconv_error option" where
  "ParseInt s =
     (if s = [] then (0, Some ErrSyntax)
      else
        (let neg = (hd s = CHR ''-'');
             ds = (if hd s = CHR ''+'' \<or> hd s = CHR ''-'' then tl s else s);
             (un, err) = ParseUint ds
         in if err = Some ErrSyntax then (0, Some ErrSyntax)
            else if \<not> neg \<and> un \<ge> 2 ^ 63 then (2 ^ 63 - 1, Some ErrRange)
            else if neg \<and> un > 2 ^ 63 then (- (2 ^ 63), Some ErrRange)
            else (if neg then - int un else int un, None)))"

definition Atoi :: "string \<Rightarrow> int \<times> strconv_error option" where
  "Atoi s = ParseInt s"

subsection \<open>The versioner\<close>

text \<open>
  The struct of lines 24 to 28. The \<^verbatim>\<open>filesystem\<close> field is a handle; what it points to is
  the \<^typ>\<open>filesystem\<close> that the methods below take and give back. The channel \<^verbatim>\<open>stop\<close>
  never carries a value: all that matters of it is whether it has been closed.
\<close>

datatype chan = Open | Closed

record Trashcan =
  cleanoutDays :: int
  stop :: chan

text \<open>
  What a call does: it returns, or the process panics.
\<close>

datatype 'a outcome = Return 'a | Panic string

text \<open>
  \<^verbatim>\<open>NewTrashcan\<close>, lines 30 to 42. A Go map gives the empty string for a key it does not
  hold, and the error of \<^verbatim>\<open>Atoi\<close> is dropped.
\<close>

definition NewTrashcan :: "string \<Rightarrow> (string \<rightharpoonup> string) \<Rightarrow> Trashcan" where
  "NewTrashcan folderID params =
     (let cleanoutDays = fst (Atoi (case params ''cleanoutDays'' of None \<Rightarrow> [] | Some v \<Rightarrow> v))
      in \<lparr>cleanoutDays = cleanoutDays, stop = Open\<rparr>)"

text \<open>
  Lines 58 to 76 of \<^verbatim>\<open>Archive\<close>: the versions directory is created (and hidden, the error
  of \<^verbatim>\<open>Hide\<close> dropped) when \<^verbatim>\<open>Stat\<close> says it does not exist, then the directory of the
  archived path is created, an "already exists" error being let through.
\<close>

definition make_archive_dirs :: "filesystem \<Rightarrow> path \<Rightarrow> error option \<times> filesystem" where
  "make_archive_dirs fs filePath =
     (let archivedPath = filepath_Join versionsDir filePath;
          parent = (\<lambda>fs1.
            case MkdirAll fs1 (filepath_Dir archivedPath) of
              Inl err \<Rightarrow> if \<not> IsExist err then (Some err, fs1) else (None, fs1)
            | Inr fs2 \<Rightarrow> (None, fs2))
      in case Stat fs versionsDir of
           Inl err \<Rightarrow>
             if \<not> IsNotExist err then (Some err, fs)
             else (case MkdirAll fs versionsDir of
                     Inl err' \<Rightarrow> (Some err', fs)
                   | Inr fs1 \<Rightarrow> parent (ignoring_error fs1 (Hide fs1 versionsDir)))
         | Inr info \<Rightarrow> parent fs)"

text \<open>
  \<^verbatim>\<open>Archive\<close>, lines 46 to 90. The two readings of the clock in line 87 are the
  arguments \<open>now1\<close> (the access time) and \<open>now2\<close> (the modification time).
\<close>

definition Archive :: "filesystem \<Rightarrow> int \<Rightarrow> int \<Rightarrow> path \<Rightarrow> error option outcome \<times> filesystem" where
  "Archive fs now1 now2 filePath =
     (case Lstat fs filePath of
        Inl err \<Rightarrow> if IsNotExist err then (Return None, fs) else (Return (Some err), fs)
      | Inr info \<Rightarrow>
          if IsSymlink info then (Panic ''bug: attempting to version a symlink'', fs)
          else (case make_archive_dirs fs filePath of
                  (Some err, fs1) \<Rightarrow> (Return (Some err), fs1)
                | (None, fs1) \<Rightarrow>
                    (let archivedPath = filepath_Join versionsDir filePath
                     in case Rename fs1 filePath archivedPath of
                          (Some err, fs2) \<Rightarrow> (Return (Some err), fs2)
                        | (None, fs2) \<Rightarrow>
                            (Return None,
                             ignoring_error fs2 (Chtimes fs2 archivedPath now1 now2)))))"

text \<open>
  The closure \<^verbatim>\<open>walkFn\<close> of lines 135 to 161. Its variables \<^verbatim>\<open>currentDir\<close> and
  \<^verbatim>\<open>filesInDir\<close> and the filesystem it removes from are the state. \<^verbatim>\<open>filesInDir\<close> only
  counts up from zero, so it is a natural number.
\<close>

record walk_state =
  wfs :: filesystem
  currentDir :: path
  filesInDir :: nat

definition walkFn :: "int \<Rightarrow> path \<Rightarrow> fileinfo \<Rightarrow> error option \<Rightarrow> walk_state \<Rightarrow>
      error option \<times> walk_state" where
  "walkFn cutoff p info err s =
     (case err of
        Some e \<Rightarrow> (Some e, s)
      | None \<Rightarrow>
          if IsDir info then
            (None,
             (if currentDir s \<noteq> [] \<and> filesInDir s = 0
              then s\<lparr>wfs := ignoring_error (wfs s) (Remove (wfs s) (currentDir s))\<rparr>
              else s)\<lparr>currentDir := p, filesInDir := 0\<rparr>)
          else if ModTime info < cutoff then
            (None, s\<lparr>wfs := ignoring_error (wfs s) (Remove (wfs s) p)\<rparr>)
          else (None, s\<lparr>filesInDir := filesInDir s + 1\<rparr>))"

text \<open>
  \<^verbatim>\<open>cleanoutArchive\<close>, lines 126 to 173; \<open>now\<close> is the reading of the clock in line 132.
  Only a "does not exist" answer of \<^verbatim>\<open>Lstat\<close> ends the sweep early; any other error is
  left to the walk.
\<close>

definition cleanoutArchive :: "Trashcan \<Rightarrow> int \<Rightarrow> filesystem \<Rightarrow> error option \<times> filesystem" where
  "cleanoutArchive t now fs =
     (if (case Lstat fs versionsDir of Inl err \<Rightarrow> IsNotExist err | Inr info \<Rightarrow> False)
      then (None, fs)
      else
        (let cutoff = cutoff_of now (cleanoutDays t)
         in case Walk fs versionsDir (walkFn cutoff) \<lparr>wfs = fs, currentDir = [], filesInDir = 0\<rparr> of
              (Some err, s) \<Rightarrow> (Some err, wfs s)
            | (None, s) \<Rightarrow>
                (None,
                 if currentDir s \<noteq> [] \<and> filesInDir s = 0
                 then ignoring_error (wfs s) (Remove (wfs s) (currentDir s))
                 else wfs s)))"

text \<open>
  \<^verbatim>\<open>Serve\<close>, lines 92 to 116. Each turn of the loop waits in \<^verbatim>\<open>select\<close> until the stop
  channel is closed or the timer fires; a run of the loop is the list of what the
  \<^verbatim>\<open>select\<close> statements received, a firing of the timer together with the reading of the
  clock in the sweep it starts. The error of a sweep is logged and dropped. At the end of
  the list the loop is still waiting.
\<close>

datatype select_case = StopReceived | TimerFired int

datatype serve_status = Returned | Waiting

fun Serve :: "Trashcan \<Rightarrow> select_case list \<Rightarrow> filesystem \<Rightarrow> serve_status \<times> filesystem" where
  "Serve t [] fs = (Waiting, fs)"
| "Serve t (StopReceived # rest) fs = (Returned, fs)"
| "Serve t (TimerFired now # rest) fs =
     Serve t rest (if cleanoutDays t > 0 then snd (cleanoutArchive t now fs) else fs)"

text \<open>
  \<^verbatim>\<open>Stop\<close>, lines 118 to 120: \<^verbatim>\<open>close\<close> of a channel that is already closed panics, as
  the Go language defines it. The filesystem is passed through to show that \<^verbatim>\<open>Stop\<close>
  does not touch it.
\<close>

definition Stop :: "Trashcan \<Rightarrow> filesystem \<Rightarrow> Trashcan outcome \<times> filesystem" where
  "Stop t fs =
     (case stop t of
        Closed \<Rightarrow> (Panic ''close of closed channel'', fs)
      | Open \<Rightarrow> (Return (t\<lparr>stop := Closed\<rparr>), fs))"

subsection \<open>Comparing nodes\<close>

text \<open>
  Two nodes of the same kind with the same content: the bytes of a regular file, the
  entries of a directory. The times of a file are not part of its content.
\<close>

fun same_content :: "node \<Rightarrow> node \<Rightarrow> bool" where
  "same_content (File c a m) (File c' a' m') = (c = c')"
| "same_content (Directory es) (Directory es') = (es = es')"
| "same_content (Symlink m) (Symlink m') = True"
| "same_content _ _ = False"

subsection \<open>Example filesystems\<close>

text \<open>A filesystem on which no operation is refused, and one that refuses to set times.\<close>

definition no_faults :: "fsop \<Rightarrow> path \<Rightarrow> error option" where
  "no_faults op p = None"

definition chtimes_refused :: "fsop \<Rightarrow> path \<Rightarrow> error option" where
  "chtimes_refused op p = (if op = OpChtimes then Some EPERM else None)"

text \<open>
  A live tree with a file \<^verbatim>\<open>a/b.txt\<close> and a symbolic link \<^verbatim>\<open>l\<close>, nothing archived yet;
  the same tree once the archive directories exist, once the file has moved, once the
  moved file carries the times 100 and 101, and once the archive has been emptied.
\<close>

definition live_tree :: node where
  "live_tree = Directory
     [(''a'', Directory [(''b.txt'', File ''hello'' 1 2)]),
      (''l'', Symlink 3)]"

definition prepared_tree :: node where
  "prepared_tree = Directory
     [(''a'', Directory [(''b.txt'', File ''hello'' 1 2)]),
      (''l'', Symlink 3),
      (''.stversions'', Directory [(''a'', Directory [])])]"

definition moved_tree :: node where
  "moved_tree = Directory
     [(''a'', Directory []),
      (''l'', Symlink 3),
      (''.stversions'', Directory [(''a'', Directory [(''b.txt'', File ''hello'' 1 2)])])]"

definition stamped_tree :: node where
  "stamped_tree = Directory
     [(''a'', Directory []),
      (''l'', Symlink 3),
      (''.stversions'', Directory [(''a'', Directory [(''b.txt'', File ''hello'' 100 101)])])]"

definition emptied_tree :: node where
  "emptied_tree = Directory
     [(''a'', Directory []),
      (''l'', Symlink 3),
      (''.stversions'', Directory [])]"

definition example_live :: filesystem where
  "example_live = \<lparr>root = live_tree, faults = no_faults\<rparr>"

definition example_archived :: filesystem where
  "example_archived = \<lparr>root = stamped_tree, faults = no_faults\<rparr>"

text \<open>
  A tree in which the file \<^verbatim>\<open>a\<close> is to be archived while the archive already holds a
  directory \<^verbatim>\<open>a\<close>, from the time when \<^verbatim>\<open>a\<close> was a directory with a file in it; and the
  same tree without the file \<^verbatim>\<open>a\<close>.
\<close>

definition clash_tree :: node where
  "clash_tree = Directory
     [(''a'', File ''precious'' 150 151),
      (''.stversions'', Directory [(''a'', Directory [(''b.txt'', File ''hello'' 100 101)])])]"

definition lost_tree :: node where
  "lost_tree = Directory
     [(''.stversions'', Directory [(''a'', Directory [(''b.txt'', File ''hello'' 100 101)])])]"

definition example_clash :: filesystem where
  "example_clash = \<lparr>root = clash_tree, faults = no_faults\<rparr>"

text \<open>
  An archive with a directory \<^verbatim>\<open>d\<close> that holds one old file, listed before a recent file
  \<^verbatim>\<open>z.txt\<close> of the versions directory itself; the same archive without the old file; and a
  versioner that keeps archived files for one day.
\<close>

definition versions_tree :: node where
  "versions_tree = Directory
     [(''.stversions'', Directory
        [(''d'', Directory [(''old.txt'', File ''x'' 0 5)]),
         (''z.txt'', File ''y'' 0 2000)])]"

definition swept_tree :: node where
  "swept_tree = Directory
     [(''.stversions'', Directory
        [(''d'', Directory []),
         (''z.txt'', File ''y'' 0 2000)])]"

definition example_versions :: filesystem where
  "example_versions = \<lparr>root = versions_tree, faults = no_faults\<rparr>"

definition one_day :: Trashcan where
  "one_day = \<lparr>cleanoutDays = 1, stop = Open\<rparr>"

section \<open>Properties\<close>

subsection \<open>The tree operations\<close>

text \<open>
  What a change of one entry does to the lookups: at the changed path the lookup gives
  what \<open>f\<close> put there, and a path that neither leads to the entry nor through it gives
  what it gave before.
\<close>

lemma lookup_modify_same:
  "modify f n p = Inr n' \<Longrightarrow>
   (case f (case lookup n p of Inl e \<Rightarrow> None | Inr c \<Rightarrow> Some c) of
      Inl e \<Rightarrow> False
    | Inr r \<Rightarrow> lookup n' p = (case r of None \<Rightarrow> Inl ENOENT | Some c \<Rightarrow> Inr c))"
proof (induction f n p arbitrary: n' rule: modify.induct)
  case (2 f es x)
  then show ?case
    by (auto simp: AList.update_conv' AList.delete_conv' split: sum.splits option.splits)
next
  case (3 f es x y p)
  from "3.prems" obtain c c' where c: "map_of es x = Some c"
    and m: "modify f c (y # p) = Inr c'" and n': "n' = Directory (AList.update x c' es)"
    by (auto split: sum.splits option.splits)
  from "3.IH" [OF c m] show ?case
    by (auto simp: c n' AList.update_conv' split: sum.splits)
qed simp_all

lemma lookup_modify_other:
  "modify f n p = Inr n' \<Longrightarrow> \<not> prefix p q \<Longrightarrow> \<not> prefix q p \<Longrightarrow> lookup n' q = lookup n q"
proof (induction f n p arbitrary: n' q rule: modify.induct)
  case (2 f es x)
  then show ?case
    by (cases q) (auto simp: AList.update_conv' AList.delete_conv' split: sum.splits option.splits)
next
  case (3 f es x y p)
  from "3.prems" obtain c c' where c: "map_of es x = Some c"
    and m: "modify f c (y # p) = Inr c'" and n': "n' = Directory (AList.update x c' es)"
    by (auto split: sum.splits option.splits)
  show ?case
  proof (cases q)
    case Nil
    with "3.prems" show ?thesis by simp
  next
    case (Cons z q')
    show ?thesis
    proof (cases "z = x")
      case True
      with "3.prems" Cons have "\<not> prefix (y # p) q'" "\<not> prefix q' (y # p)" by simp_all
      from "3.IH" [OF c m this] show ?thesis
        by (simp add: Cons True c n' AList.update_conv')
    next
      case False
      then show ?thesis by (simp add: Cons n' AList.update_conv')
    qed
  qed
qed simp_all

lemma lookup_mkdirAll_keeps:
  "mkdirAll n q = Inr n' \<Longrightarrow> lookup n p = Inr c \<Longrightarrow> \<not> strict_prefix p q \<Longrightarrow> lookup n' p = Inr c"
proof (induction n q arbitrary: n' p c rule: mkdirAll.induct)
  case (4 es x q)
  then show ?case
    by (cases p) (auto simp: AList.update_conv' split: sum.splits option.splits)
qed simp_all


lemma modify_succeeds:
  "lookup n p = Inr c \<Longrightarrow> p \<noteq> [] \<Longrightarrow> f (Some c) = Inr r \<Longrightarrow> \<exists>n'. modify f n p = Inr n'"
proof (induction f n p rule: modify.induct)
  case (2 f es x)
  then show ?case by (auto split: option.splits)
next
  case (3 f es x y p)
  then show ?case by (auto split: option.splits)
qed simp_all

lemma Lstat_lookup:
  "Lstat fs p = Inr info \<Longrightarrow> \<exists>n. lookup (root fs) p = Inr n \<and> info = info_of n"
  by (auto simp: Lstat_def split: option.splits sum.splits)

lemma MkdirAll_keeps:
  assumes "MkdirAll fs q = Inr fs'"
  shows "faults fs' = faults fs"
    and "lookup (root fs) p = Inr c \<Longrightarrow> \<not> strict_prefix p q \<Longrightarrow> lookup (root fs') p = Inr c"
  using assms lookup_mkdirAll_keeps [of "root fs" q _ p c]
  by (auto simp: MkdirAll_def split: option.splits sum.splits)

lemma Hide_keeps: "ignoring_error fs (Hide fs p) = fs"
  by (simp add: ignoring_error_def Hide_def split: option.splits)

lemma make_archive_dirs_keeps:
  assumes "make_archive_dirs fs fp = (r, fs1)"
  shows "faults fs1 = faults fs"
    and "lookup (root fs) p = Inr c \<Longrightarrow> \<not> strict_prefix p versionsDir \<Longrightarrow>
         \<not> strict_prefix p (filepath_Dir (filepath_Join versionsDir fp)) \<Longrightarrow>
         lookup (root fs1) p = Inr c"
  using assms
  by (auto simp: make_archive_dirs_def Let_def Hide_keeps MkdirAll_keeps
      split: sum.splits if_splits)

lemma place_Inr: "place n old = Inr r \<Longrightarrow> r = Some n"
  by (auto simp: place_def split: option.splits node.splits if_splits)

lemma unlink_Inr: "unlink old = Inr r \<Longrightarrow> r = None"
  by (auto simp: unlink_def split: option.splits)

lemma Remove_missing:
  "lookup (root fs) p = Inl e \<Longrightarrow> ignoring_error fs (Remove fs p) = fs"
proof (cases "modify remove_entry (root fs) p")
  case (Inl e')
  then show ?thesis by (simp add: ignoring_error_def Remove_def split: option.splits)
next
  case (Inr r)
  assume "lookup (root fs) p = Inl e"
  with lookup_modify_same [OF Inr] have False by (simp add: remove_entry_def)
  then show ?thesis ..
qed

lemma fs_Rename_moves:
  assumes "fs_Rename fs from to = Inr fs'" and "from \<noteq> to" and "\<not> prefix to from"
  shows "faults fs' = faults fs \<and> \<not> prefix from to \<and>
         (\<exists>n. lookup (root fs) from = Inr n \<and> lookup (root fs') to = Inr n) \<and>
         lookup (root fs') from = Inl ENOENT"
proof -
  from assms obtain n r1 r2 where n: "lookup (root fs) from = Inr n"
    and np: "\<not> prefix from to"
    and r1: "modify (place n) (root fs) to = Inr r1"
    and r2: "modify unlink r1 from = Inr r2"
    and fs': "fs' = fs\<lparr>root := r2\<rparr>"
    by (auto simp: fs_Rename_def split: option.splits sum.splits if_splits node.splits)
  from lookup_modify_same [OF r1] have "lookup r1 to = Inr n"
    by (auto split: sum.splits dest: place_Inr)
  moreover from lookup_modify_other [OF r2 np assms(3)] have "lookup r2 to = lookup r1 to" .
  moreover from lookup_modify_same [OF r2] have "lookup r2 from = Inl ENOENT"
    by (auto split: sum.splits dest: unlink_Inr)
  ultimately show ?thesis using n np fs' by simp
qed

lemma Rename_moves:
  assumes "Rename fs from to = (None, fs')" and "from \<noteq> to" and "\<not> prefix to from"
  shows "faults fs' = faults fs \<and> \<not> prefix from to \<and>
         (\<exists>n. lookup (root fs) from = Inr n \<and> lookup (root fs') to = Inr n) \<and>
         lookup (root fs') from = Inl ENOENT"
proof -
  from assms(1) obtain fs1 where mv: "fs_Rename fs from to = Inr fs1"
    and fs': "fs' = ignoring_error fs1 (Remove fs1 from)"
    by (auto simp: Rename_def split: sum.splits)
  note m = fs_Rename_moves [OF mv assms(2,3)]
  then have "lookup (root fs1) from = Inl ENOENT" by simp
  from Remove_missing [OF this] fs' have "fs' = fs1" by simp
  with m show ?thesis by simp
qed

lemma Chtimes_effect:
  assumes "Chtimes fs p a m = Inr fs'"
  shows "faults fs' = faults fs"
    and "\<not> prefix p q \<Longrightarrow> \<not> prefix q p \<Longrightarrow> lookup (root fs') q = lookup (root fs) q"
    and "lookup (root fs) p = Inr n \<Longrightarrow> \<exists>n'. lookup (root fs') p = Inr n' \<and> same_content n n'"
    and "lookup (root fs) p = Inr (File c a' m') \<Longrightarrow> lookup (root fs') p = Inr (File c a m)"
proof -
  from assms obtain r where r: "modify (set_times a m) (root fs) p = Inr r"
    and fs': "fs' = fs\<lparr>root := r\<rparr>"
    by (auto simp: Chtimes_def split: option.splits sum.splits)
  show "faults fs' = faults fs" by (simp add: fs')
  show "\<not> prefix p q \<Longrightarrow> \<not> prefix q p \<Longrightarrow> lookup (root fs') q = lookup (root fs) q"
    using lookup_modify_other [OF r] by (simp add: fs')
  show "lookup (root fs) p = Inr n \<Longrightarrow> \<exists>n'. lookup (root fs') p = Inr n' \<and> same_content n n'"
    using lookup_modify_same [OF r]
    by (cases n) (auto simp: fs' set_times_def split: sum.splits)
  show "lookup (root fs) p = Inr (File c a' m') \<Longrightarrow> lookup (root fs') p = Inr (File c a m)"
    using lookup_modify_same [OF r]
    by (auto simp: fs' set_times_def split: sum.splits)
qed

lemma same_content_refl: "same_content n n"
  by (cases n) simp_all

lemma not_prefix_versionsDir_path: "\<not> prefix (versionsDir @ p) p"
  by (auto simp: versionsDir_def dest: prefix_length_le)

lemmas fs_op_defs = Lstat_def Stat_def MkdirAll_def Hide_def fs_Rename_def Rename_def
  Chtimes_def Remove_def
  ignoring_error_def place_def unlink_def set_times_def remove_entry_def
  filepath_Join_def filepath_Dir_def versionsDir_def IsNotExist_def IsExist_def

subsection \<open>Construction and the scheduler\<close>

lemma Serve_disabled: "cleanoutDays t \<le> 0 \<Longrightarrow> snd (Serve t evs fs) = fs"
  by (induction t evs fs rule: Serve.induct) simp_all

lemma Atoi_empty: "Atoi [] = (0, Some ErrSyntax)"
  by (simp add: Atoi_def ParseInt_def)

lemma Atoi_syntax_value: "snd (Atoi s) = Some ErrSyntax \<Longrightarrow> fst (Atoi s) = 0"
  by (auto simp: Atoi_def ParseInt_def Let_def split: if_splits prod.splits)

text \<open>
  What holds of the construction: without a \<^verbatim>\<open>"cleanoutDays"\<close> entry, or with one that
  \<^verbatim>\<open>Atoi\<close> rejects with a syntax error, the retention is 0, and with a retention of 0 no
  run of the \<^verbatim>\<open>Serve\<close> loop changes the filesystem.
\<close>

lemma NewTrashcan_absent_or_malformed:
  assumes "params ''cleanoutDays'' = None \<or>
           (\<exists>v. params ''cleanoutDays'' = Some v \<and> snd (Atoi v) = Some ErrSyntax)"
  shows "cleanoutDays (NewTrashcan folderID params) = 0 \<and>
         (\<forall>evs fs. snd (Serve (NewTrashcan folderID params) evs fs) = fs)"
proof -
  have "cleanoutDays (NewTrashcan folderID params) = 0"
    using assms by (auto simp: NewTrashcan_def Atoi_empty Atoi_syntax_value)
  then show ?thesis by (simp add: Serve_disabled)
qed

lemma Atoi_out_of_range: "Atoi ''9223372036854775808'' = (9223372036854775807, Some ErrRange)"
  by (simp add: Atoi_def ParseInt_def ParseUint_def is_digit_def)

lemma cutoff_of_largest: "cutoff_of now 9223372036854775807 = now + 86400000000000"
  by (simp add: cutoff_of_def Hour_def)

text \<open>
  Claim C5, at an input where the code does not do what the claim says. The entry
  \<^verbatim>\<open>"9223372036854775808"\<close> cannot be parsed as an \<^verbatim>\<open>int\<close>: \<^verbatim>\<open>Atoi\<close> returns a range error,
  and with it the largest \<^verbatim>\<open>int\<close>. Line 31 drops the error and keeps that value, so the
  retention is not 0 as line 32 says. The product of line 132 wraps to plus 24 hours, and
  the first sweep, one minute after the start, removes a file archived a minute before.
\<close>

theorem NewTrashcan_range_error_sweeps:
  "Atoi ''9223372036854775808'' = (9223372036854775807, Some ErrRange) \<and>
   cleanoutDays (NewTrashcan ''default'' [''cleanoutDays'' \<mapsto> ''9223372036854775808'']) =
     9223372036854775807 \<and>
   cutoff_of 60000000101 9223372036854775807 = 60000000101 + 86400000000000 \<and>
   lookup (root example_archived) (versionsDir @ [''a'', ''b.txt'']) =
     Inr (File ''hello'' 100 101) \<and>
   Serve (NewTrashcan ''default'' [''cleanoutDays'' \<mapsto> ''9223372036854775808''])
     [TimerFired 60000000101] example_archived =
     (Waiting, \<lparr>root = emptied_tree, faults = no_faults\<rparr>) \<and>
   lookup emptied_tree (versionsDir @ [''a'', ''b.txt'']) = Inl ENOENT"
proof -
  have days: "cleanoutDays (NewTrashcan ''default''
      [''cleanoutDays'' \<mapsto> ''9223372036854775808'']) = 9223372036854775807"
    by (simp add: NewTrashcan_def Atoi_out_of_range)
  have sweep: "cleanoutArchive (NewTrashcan ''default''
      [''cleanoutDays'' \<mapsto> ''9223372036854775808'']) 60000000101 example_archived =
      (None, \<lparr>root = emptied_tree, faults = no_faults\<rparr>)"
    by (simp add: cleanoutArchive_def days cutoff_of_largest Walk_def walkFn_def Lstat_def
        Remove_def remove_entry_def ignoring_error_def versionsDir_def IsNotExist_def
        example_archived_def stamped_tree_def emptied_tree_def no_faults_def)
  have "lookup (root example_archived) (versionsDir @ [''a'', ''b.txt'']) =
      Inr (File ''hello'' 100 101)"
    by (simp add: example_archived_def stamped_tree_def versionsDir_def)
  moreover have "lookup emptied_tree (versionsDir @ [''a'', ''b.txt'']) = Inl ENOENT"
    by (simp add: emptied_tree_def versionsDir_def)
  ultimately show ?thesis
    using days sweep Atoi_out_of_range cutoff_of_largest [of 60000000101] by simp
qed

text \<open>
  Claim C9. \<^verbatim>\<open>Stop\<close> works once. After a \<^verbatim>\<open>Stop\<close> that returned, the channel is closed, a
  second \<^verbatim>\<open>Stop\<close> panics at once (it waits for nothing), neither call touches the
  filesystem, and a \<^verbatim>\<open>Serve\<close> loop that receives from the closed channel returns without
  a sweep.
\<close>

theorem Stop_twice_panics:
  assumes "Stop t fs = (Return t', fs')"
  shows "fs' = fs \<and> stop t' = Closed \<and> (\<exists>msg. Stop t' fs' = (Panic msg, fs')) \<and>
         Serve t' (StopReceived # evs) fs' = (Returned, fs')"
  using assms by (auto simp: Stop_def split: chan.splits)

theorem Stop_twice_panics_witness:
  "Stop \<lparr>cleanoutDays = 7, stop = Open\<rparr> example_live =
     (Return \<lparr>cleanoutDays = 7, stop = Closed\<rparr>, example_live) \<and>
   (\<exists>msg. Stop \<lparr>cleanoutDays = 7, stop = Closed\<rparr> example_live = (Panic msg, example_live))"
proof -
  have a: "Stop \<lparr>cleanoutDays = 7, stop = Open\<rparr> example_live =
      (Return \<lparr>cleanoutDays = 7, stop = Closed\<rparr>, example_live)"
    by (simp add: Stop_def)
  show ?thesis using a Stop_twice_panics [OF a] by simp
qed

subsection \<open>Archive: the early exits\<close>

text \<open>
  Claim C6. When \<^verbatim>\<open>Lstat\<close> finds the path and reports a symbolic link, \<^verbatim>\<open>Archive\<close> panics;
  it returns no error value and has not touched the filesystem.
\<close>

theorem Archive_symlink_panics:
  assumes "Lstat fs filePath = Inr info" and "IsSymlink info"
  shows "\<exists>msg. Archive fs now1 now2 filePath = (Panic msg, fs)"
  using assms by (simp add: Archive_def)

theorem Archive_symlink_panics_witness:
  "Lstat example_live [''l''] = Inr (info_of (Symlink 3)) \<and> IsSymlink (info_of (Symlink 3)) \<and>
   (\<exists>msg. Archive example_live 10 11 [''l''] = (Panic msg, example_live))"
proof -
  have a: "Lstat example_live [''l''] = Inr (info_of (Symlink 3))"
    by (simp add: Lstat_def example_live_def live_tree_def no_faults_def)
  have b: "IsSymlink (info_of (Symlink 3))" by simp
  show ?thesis using a b Archive_symlink_panics [OF a b, of 10 11] by simp
qed

text \<open>
  Claim C7. When \<^verbatim>\<open>Lstat\<close> reports that the path does not exist, \<^verbatim>\<open>Archive\<close> returns nil
  and leaves the filesystem as it was; so a second call on the same path finds the same
  and returns nil again.
\<close>

theorem Archive_missing_is_noop:
  assumes "Lstat fs filePath = Inl err" and "IsNotExist err"
  shows "Archive fs now1 now2 filePath = (Return None, fs) \<and>
         Archive (snd (Archive fs now1 now2 filePath)) now3 now4 filePath = (Return None, fs)"
  using assms by (simp add: Archive_def)

theorem Archive_missing_is_noop_witness:
  "Lstat example_live [''a'', ''gone''] = Inl ENOENT \<and> IsNotExist ENOENT \<and>
   Archive example_live 10 11 [''a'', ''gone''] = (Return None, example_live) \<and>
   Archive (snd (Archive example_live 10 11 [''a'', ''gone''])) 12 13 [''a'', ''gone''] =
     (Return None, example_live)"
proof -
  have a: "Lstat example_live [''a'', ''gone''] = Inl ENOENT"
    by (simp add: Lstat_def example_live_def live_tree_def no_faults_def)
  have b: "IsNotExist ENOENT" by (simp add: IsNotExist_def)
  from Archive_missing_is_noop [OF a b, of 10 11 12 13] a b show ?thesis by blast
qed

subsection \<open>Archive: the move\<close>

text \<open>
  Claim C1. When \<^verbatim>\<open>Lstat\<close> finds the path and it is not a symbolic link, and \<^verbatim>\<open>Archive\<close>
  returns nil, then afterwards nothing exists at the path, and at the mirrored path
  under the versions directory there is a node of the same kind with the content the
  original had (for a directory, its entries).
\<close>

theorem Archive_moves:
  assumes "Lstat fs filePath = Inr info" and "\<not> IsSymlink info"
    and "Archive fs now1 now2 filePath = (Return None, fs')"
  shows "\<exists>n n'. lookup (root fs) filePath = Inr n \<and>
           lookup (root fs') filePath = Inl ENOENT \<and>
           lookup (root fs') (filepath_Join versionsDir filePath) = Inr n' \<and>
           same_content n n'"
proof -
  let ?ap = "versionsDir @ filePath"
  from assms obtain fs1 fs2 where dirs: "make_archive_dirs fs filePath = (None, fs1)"
    and mv: "Rename fs1 filePath ?ap = (None, fs2)"
    and fs': "fs' = ignoring_error fs2 (Chtimes fs2 ?ap now1 now2)"
    by (auto simp: Archive_def filepath_Join_def Let_def split: sum.splits option.splits if_splits prod.splits)
  have ne: "filePath \<noteq> ?ap" by (simp add: versionsDir_def)
  from Rename_moves [OF mv ne not_prefix_versionsDir_path]
  obtain n1 where np: "\<not> prefix filePath ?ap" and n1: "lookup (root fs1) filePath = Inr n1"
    and to: "lookup (root fs2) ?ap = Inr n1" and gone: "lookup (root fs2) filePath = Inl ENOENT"
    by blast
  from Lstat_lookup [OF assms(1)] obtain n where n: "lookup (root fs) filePath = Inr n" by blast
  have "\<not> strict_prefix filePath versionsDir"
    using np by (auto simp: strict_prefix_def intro: prefix_order.trans)
  moreover have "\<not> strict_prefix filePath (filepath_Dir (filepath_Join versionsDir filePath))"
    using np prefix_order.trans [OF _ prefixeq_butlast, of filePath ?ap]
    by (auto simp: strict_prefix_def filepath_Dir_def filepath_Join_def)
  ultimately have "lookup (root fs1) filePath = Inr n"
    using make_archive_dirs_keeps(2) [OF dirs n] by simp
  with n1 have [simp]: "n1 = n" by simp
  show ?thesis
  proof (cases "Chtimes fs2 ?ap now1 now2")
    case (Inl e)
    then have "fs' = fs2" by (simp add: fs' ignoring_error_def)
    with n to gone show ?thesis by (auto simp: filepath_Join_def same_content_refl)
  next
    case (Inr fs3)
    then have [simp]: "fs' = fs3" by (simp add: fs' ignoring_error_def)
    from Chtimes_effect(2) [OF Inr not_prefix_versionsDir_path np] gone
    have "lookup (root fs3) filePath = Inl ENOENT" by simp
    moreover from Chtimes_effect(3) [OF Inr to]
    obtain n' where "lookup (root fs3) ?ap = Inr n'" "same_content n n'" by auto
    ultimately show ?thesis using n by (auto simp: filepath_Join_def)
  qed
qed


lemma example_live_Archive:
  "Archive example_live 100 101 [''a'', ''b.txt''] = (Return None, example_archived)"
  by (simp add: Archive_def make_archive_dirs_def example_live_def example_archived_def live_tree_def stamped_tree_def
      no_faults_def fs_op_defs)

theorem Archive_moves_witness:
  "Lstat example_live [''a'', ''b.txt''] = Inr (info_of (File ''hello'' 1 2)) \<and>
   \<not> IsSymlink (info_of (File ''hello'' 1 2)) \<and>
   Archive example_live 100 101 [''a'', ''b.txt''] = (Return None, example_archived) \<and>
   (\<exists>n n'. lookup (root example_live) [''a'', ''b.txt''] = Inr n \<and>
      lookup (root example_archived) [''a'', ''b.txt''] = Inl ENOENT \<and>
      lookup (root example_archived) (filepath_Join versionsDir [''a'', ''b.txt'']) = Inr n' \<and>
      same_content n n')"
proof -
  have a: "Lstat example_live [''a'', ''b.txt''] = Inr (info_of (File ''hello'' 1 2))"
    by (simp add: Lstat_def example_live_def live_tree_def no_faults_def)
  have b: "\<not> IsSymlink (info_of (File ''hello'' 1 2))" by simp
  from Archive_moves [OF a b example_live_Archive] a b example_live_Archive
  show ?thesis by blast
qed


text \<open>
  Claim C2, at an input where the code does not do what the claim says. The file \<^verbatim>\<open>a\<close>
  is to be archived and the archive holds a directory of that name, so the rename is
  refused. \<^verbatim>\<open>Archive\<close> returns the error of the rename, as the claim says; but
  \<^verbatim>\<open>osutil.Rename\<close> has removed the source on its way out: afterwards the file is neither
  in the live tree nor in the archive.
\<close>

theorem Archive_failed_move_loses_file:
  "lookup (root example_clash) [''a''] = Inr (File ''precious'' 150 151) \<and>
   make_archive_dirs example_clash [''a''] = (None, example_clash) \<and>
   fs_Rename example_clash [''a''] (filepath_Join versionsDir [''a'']) = Inl EEXIST \<and>
   Archive example_clash 200 201 [''a''] =
     (Return (Some EEXIST), \<lparr>root = lost_tree, faults = no_faults\<rparr>) \<and>
   lookup lost_tree [''a''] = Inl ENOENT \<and>
   lookup lost_tree (filepath_Join versionsDir [''a'']) =
     Inr (Directory [(''b.txt'', File ''hello'' 100 101)])"
  by (simp add: Archive_def make_archive_dirs_def example_clash_def clash_tree_def lost_tree_def
      no_faults_def fs_op_defs)

text \<open>
  Claim C8. Once the move has succeeded, \<^verbatim>\<open>Archive\<close> returns nil whatever \<^verbatim>\<open>Chtimes\<close>
  does: when \<^verbatim>\<open>Chtimes\<close> fails, the result is the filesystem as the move left it; and
  when the original is a regular file and \<^verbatim>\<open>Chtimes\<close> is not refused, the archived file
  has the two readings of the clock as its access and modification times.
\<close>

theorem Archive_stamps_best_effort:
  assumes "Lstat fs filePath = Inr info" and "\<not> IsSymlink info"
    and "make_archive_dirs fs filePath = (None, fs1)"
    and "Rename fs1 filePath (filepath_Join versionsDir filePath) = (None, fs2)"
  shows "fst (Archive fs now1 now2 filePath) = Return None \<and>
         (\<forall>e. Chtimes fs2 (filepath_Join versionsDir filePath) now1 now2 = Inl e \<longrightarrow>
              snd (Archive fs now1 now2 filePath) = fs2) \<and>
         (\<forall>c a m. lookup (root fs) filePath = Inr (File c a m) \<longrightarrow>
              faults fs OpChtimes (filepath_Join versionsDir filePath) = None \<longrightarrow>
              lookup (root (snd (Archive fs now1 now2 filePath))) (filepath_Join versionsDir filePath) =
                Inr (File c now1 now2))"
proof -
  let ?ap = "filepath_Join versionsDir filePath"
  have A: "Archive fs now1 now2 filePath =
      (Return None, ignoring_error fs2 (Chtimes fs2 ?ap now1 now2))"
    using assms by (simp add: Archive_def)
  have stamp: "lookup (root (snd (Archive fs now1 now2 filePath))) ?ap = Inr (File c now1 now2)"
    if n: "lookup (root fs) filePath = Inr (File c a m)" and nf: "faults fs OpChtimes ?ap = None"
    for c a m
  proof -
    have ne: "filePath \<noteq> ?ap" by (simp add: versionsDir_def filepath_Join_def)
    from Rename_moves [OF assms(4) ne] not_prefix_versionsDir_path
    obtain n1 where np: "\<not> prefix filePath ?ap" and n1: "lookup (root fs1) filePath = Inr n1"
      and to: "lookup (root fs2) ?ap = Inr n1" and f2: "faults fs2 = faults fs1"
      by (auto simp: filepath_Join_def)
    have "\<not> strict_prefix filePath versionsDir"
      using np by (auto simp: strict_prefix_def filepath_Join_def intro: prefix_order.trans)
    moreover have "\<not> strict_prefix filePath (filepath_Dir ?ap)"
      using np prefix_order.trans [OF _ prefixeq_butlast, of filePath ?ap]
      by (auto simp: strict_prefix_def filepath_Dir_def)
    ultimately have "lookup (root fs1) filePath = Inr (File c a m)"
      using make_archive_dirs_keeps(2) [OF assms(3) n] by simp
    with n1 to have to': "lookup (root fs2) ?ap = Inr (File c a m)" by simp
    have "?ap \<noteq> []" by (simp add: versionsDir_def filepath_Join_def)
    from modify_succeeds [OF to' this, of "set_times now1 now2"]
    obtain r where "modify (set_times now1 now2) (root fs2) ?ap = Inr r"
      by (auto simp: set_times_def)
    moreover have "faults fs2 OpChtimes ?ap = None"
      using nf f2 make_archive_dirs_keeps(1) [OF assms(3)] by simp
    ultimately obtain fs3 where c3: "Chtimes fs2 ?ap now1 now2 = Inr fs3"
      by (simp add: Chtimes_def)
    from Chtimes_effect(4) [OF c3 to'] show ?thesis
      by (simp add: A c3 ignoring_error_def)
  qed
  show ?thesis using A stamp by (auto simp: ignoring_error_def)
qed

theorem Archive_stamps_best_effort_witness:
  "fst (Archive example_live 100 101 [''a'', ''b.txt'']) = Return None \<and>
   lookup (root (snd (Archive example_live 100 101 [''a'', ''b.txt''])))
     (filepath_Join versionsDir [''a'', ''b.txt'']) = Inr (File ''hello'' 100 101) \<and>
   Chtimes \<lparr>root = moved_tree, faults = chtimes_refused\<rparr>
     (filepath_Join versionsDir [''a'', ''b.txt'']) 100 101 = Inl EPERM \<and>
   fst (Archive \<lparr>root = live_tree, faults = chtimes_refused\<rparr> 100 101 [''a'', ''b.txt'']) =
     Return None \<and>
   snd (Archive \<lparr>root = live_tree, faults = chtimes_refused\<rparr> 100 101 [''a'', ''b.txt'']) =
     \<lparr>root = moved_tree, faults = chtimes_refused\<rparr>"
proof -
  let ?p = "[''a'', ''b.txt'']"
  have b: "\<not> IsSymlink (info_of (File ''hello'' 1 2))" by simp
  have a1: "Lstat example_live ?p = Inr (info_of (File ''hello'' 1 2))"
    by (simp add: Lstat_def example_live_def live_tree_def no_faults_def)
  have c1: "make_archive_dirs example_live ?p = (None, \<lparr>root = prepared_tree, faults = no_faults\<rparr>)"
    by (simp add: make_archive_dirs_def example_live_def live_tree_def prepared_tree_def
        no_faults_def fs_op_defs)
  have d1: "Rename \<lparr>root = prepared_tree, faults = no_faults\<rparr> ?p (filepath_Join versionsDir ?p) =
      (None, \<lparr>root = moved_tree, faults = no_faults\<rparr>)"
    by (simp add: prepared_tree_def moved_tree_def no_faults_def fs_op_defs)
  have e1: "lookup (root example_live) ?p = Inr (File ''hello'' 1 2)"
    by (simp add: example_live_def live_tree_def)
  have f1: "faults example_live OpChtimes (filepath_Join versionsDir ?p) = None"
    by (simp add: example_live_def no_faults_def)
  have a2: "Lstat \<lparr>root = live_tree, faults = chtimes_refused\<rparr> ?p =
      Inr (info_of (File ''hello'' 1 2))"
    by (simp add: Lstat_def live_tree_def chtimes_refused_def)
  have c2: "make_archive_dirs \<lparr>root = live_tree, faults = chtimes_refused\<rparr> ?p =
      (None, \<lparr>root = prepared_tree, faults = chtimes_refused\<rparr>)"
    by (simp add: make_archive_dirs_def live_tree_def prepared_tree_def
        chtimes_refused_def fs_op_defs)
  have d2: "Rename \<lparr>root = prepared_tree, faults = chtimes_refused\<rparr> ?p
      (filepath_Join versionsDir ?p) = (None, \<lparr>root = moved_tree, faults = chtimes_refused\<rparr>)"
    by (simp add: prepared_tree_def moved_tree_def chtimes_refused_def fs_op_defs)
  have e2: "Chtimes \<lparr>root = moved_tree, faults = chtimes_refused\<rparr>
      (filepath_Join versionsDir ?p) 100 101 = Inl EPERM"
    by (simp add: Chtimes_def chtimes_refused_def)
  from Archive_stamps_best_effort [OF a1 b c1 d1, of 100 101]
    Archive_stamps_best_effort [OF a2 b c2 d2, of 100 101] e1 f1 e2
  show ?thesis by simp
qed

subsection \<open>The sweep\<close>

text \<open>
  The product of line 132 does not wrap for a retention of up to 106751 days (some 292
  years) in either direction: there the cutoff is the clock minus that many days.
\<close>

lemma cutoff_of_in_range:
  assumes "- 106751 \<le> days" and "days \<le> 106751"
  shows "cutoff_of now days = now - days * 86400000000000"
proof -
  define k where "k = - 24 * days * 3600000000000"
  have "- (2 ^ 63) \<le> k" and "k < 2 ^ 63"
    using assms by (simp_all add: k_def)
  then have "sint (word_of_int k :: 64 word) = k"
    by (simp add: sint_sbintrunc' signed_take_bit_int_eq_self)
  moreover have "(word_of_int (- 24 * days) :: 64 word) * Hour = word_of_int k"
    by (simp add: Hour_def k_def)
  ultimately show ?thesis by (simp add: cutoff_of_def k_def)
qed







text \<open>
  A removal whose error is dropped leaves every other node that is not a directory where
  it is, creates nothing, and takes away a file that nothing protects.
\<close>

lemma try_Remove_faults: "faults (ignoring_error fs (Remove fs q)) = faults fs"
  by (auto simp: ignoring_error_def Remove_def split: option.splits sum.splits)




lemma walkFn_faults: "walkFn cutoff q i e s = (r, s') \<Longrightarrow> faults (wfs s') = faults (wfs s)"
  by (auto simp: walkFn_def try_Remove_faults split: option.splits if_splits)




lemma visit_all_faults:
  "visit_all (walkFn cutoff) evs s = (r, s') \<Longrightarrow> faults (wfs s') = faults (wfs s)"
proof (induction evs arbitrary: s)
  case Nil
  then show ?case by simp
next
  case (Cons ev evs)
  obtain q i e where ev: "ev = (q, i, e)" by (cases ev)
  obtain r1 s1 where st: "walkFn cutoff q i e s = (r1, s1)" by (cases "walkFn cutoff q i e s")
  from walkFn_faults [OF st] Cons show ?case
    by (auto simp: ev st split: option.splits)
qed
















lemmas sweep_defs = cleanoutArchive_def Walk_def walkFn_def Lstat_def Remove_def remove_entry_def
  ignoring_error_def versionsDir_def IsNotExist_def

lemma cutoff_example: "cutoff_of 86400000001000 (cleanoutDays one_day) = 1000"
  using cutoff_of_in_range [of 1 86400000001000] by (simp add: one_day_def)

text \<open>
  Claim C4, at an input where the code does not do what the claim says. The directory
  \<^verbatim>\<open>d\<close> of the archive holds one file, and that file expires in the sweep. The walk
  yields \<^verbatim>\<open>z.txt\<close> of the parent after it, a file that stays, and counts it for \<^verbatim>\<open>d\<close>:
  at the end of the sweep \<^verbatim>\<open>d\<close> is still there, empty, and a second sweep leaves it there
  again.
\<close>

theorem sweep_leaves_emptied_directory:
  "lookup (root example_versions) (versionsDir @ [''d'']) = Inr (Directory [(''old.txt'', File ''x'' 0 5)]) \<and>
   5 < cutoff_of 86400000001000 (cleanoutDays one_day) \<and>
   cleanoutArchive one_day 86400000001000 example_versions =
     (None, \<lparr>root = swept_tree, faults = no_faults\<rparr>) \<and>
   lookup swept_tree (versionsDir @ [''d'']) = Inr (Directory []) \<and>
   cleanoutArchive one_day 86400000001000 \<lparr>root = swept_tree, faults = no_faults\<rparr> =
     (None, \<lparr>root = swept_tree, faults = no_faults\<rparr>)"
  by (simp add: cutoff_example sweep_defs example_versions_def versions_tree_def swept_tree_def
      no_faults_def)

text \<open>
  Claim C10. A file that stays is counted for \<^verbatim>\<open>currentDir\<close>, the directory entered last,
  wherever the file lies; and a directory left with a count other than zero is not
  removed. So in a versions directory that lists a directory \<open>sub\<close> with one expired
  file before a file \<open>k\<close> that stays: when the walk enters \<open>sub\<close>, the versions directory
  is left with a count of zero (its removal is tried and fails, since it has entries);
  the walk ends with \<open>sub\<close> as the current directory and a count of one, the one for
  \<open>k\<close>; and the sweep leaves \<open>sub\<close> in place although it is empty.
\<close>

theorem walk_credits_last_entered_directory:
  assumes "sub \<noteq> k" and "m < cutoff_of now (cleanoutDays t)"
    and "\<not> m' < cutoff_of now (cleanoutDays t)"
    and "fs = \<lparr>root = Directory [(''.stversions'',
            Directory [(sub, Directory [(f, File c a m)]), (k, File c' a' m')])],
          faults = no_faults\<rparr>"
    and "fs' = \<lparr>root = Directory [(''.stversions'',
            Directory [(sub, Directory []), (k, File c' a' m')])],
          faults = no_faults\<rparr>"
  shows "(\<forall>cutoff q i s. \<not> IsDir i \<and> \<not> ModTime i < cutoff \<longrightarrow>
            walkFn cutoff q i None s = (None, s\<lparr>filesInDir := filesInDir s + 1\<rparr>)) \<and>
         (\<forall>cutoff q i s. IsDir i \<and> filesInDir s \<noteq> 0 \<longrightarrow>
            walkFn cutoff q i None s = (None, s\<lparr>currentDir := q, filesInDir := 0\<rparr>)) \<and>
         visit_all (walkFn (cutoff_of now (cleanoutDays t)))
           [(versionsDir, info_of (Directory []), None),
            (versionsDir @ [sub], info_of (Directory []), None)]
           \<lparr>wfs = fs, currentDir = [], filesInDir = 0\<rparr> =
           (None, \<lparr>wfs = fs, currentDir = versionsDir @ [sub], filesInDir = 0\<rparr>) \<and>
         Remove fs versionsDir = Inl ENOTEMPTY \<and>
         Walk fs versionsDir (walkFn (cutoff_of now (cleanoutDays t)))
           \<lparr>wfs = fs, currentDir = [], filesInDir = 0\<rparr> =
           (None, \<lparr>wfs = fs', currentDir = versionsDir @ [sub], filesInDir = 1\<rparr>) \<and>
         cleanoutArchive t now fs = (None, fs') \<and>
         lookup (root fs') (versionsDir @ [sub]) = Inr (Directory [])"
proof -
  have "walkFn cutoff q i None s = (None, s\<lparr>filesInDir := filesInDir s + 1\<rparr>)"
    if "\<not> IsDir i \<and> \<not> ModTime i < cutoff" for cutoff q i s
    using that by (simp add: walkFn_def)
  moreover have "walkFn cutoff q i None s = (None, s\<lparr>currentDir := q, filesInDir := 0\<rparr>)"
    if "IsDir i \<and> filesInDir s \<noteq> 0" for cutoff q i s
    using that by (simp add: walkFn_def)
  moreover have "visit_all (walkFn (cutoff_of now (cleanoutDays t)))
      [(versionsDir, info_of (Directory []), None),
       (versionsDir @ [sub], info_of (Directory []), None)]
      \<lparr>wfs = fs, currentDir = [], filesInDir = 0\<rparr> =
      (None, \<lparr>wfs = fs, currentDir = versionsDir @ [sub], filesInDir = 0\<rparr>)"
    using assms by (simp add: sweep_defs no_faults_def)
  moreover have "Remove fs versionsDir = Inl ENOTEMPTY"
    using assms by (simp add: sweep_defs no_faults_def)
  moreover have "Walk fs versionsDir (walkFn (cutoff_of now (cleanoutDays t)))
      \<lparr>wfs = fs, currentDir = [], filesInDir = 0\<rparr> =
      (None, \<lparr>wfs = fs', currentDir = versionsDir @ [sub], filesInDir = 1\<rparr>)"
    using assms by (simp add: sweep_defs no_faults_def)
  moreover have "cleanoutArchive t now fs = (None, fs')"
    using assms by (simp add: sweep_defs no_faults_def)
  moreover have "lookup (root fs') (versionsDir @ [sub]) = Inr (Directory [])"
    using assms by (simp add: versionsDir_def)
  ultimately show ?thesis by blast
qed

theorem walk_credits_last_entered_directory_witness:
  "''photos'' \<noteq> ''notes.txt'' \<and> (7::int) < cutoff_of 86400000001000 (cleanoutDays one_day) \<and>
   \<not> (3000::int) < cutoff_of 86400000001000 (cleanoutDays one_day) \<and>
   walkFn 1000 (versionsDir @ [''notes.txt''])
     \<lparr>IsDir = False, IsSymlink = False, ModTime = 3000\<rparr> None
     \<lparr>wfs = example_live, currentDir = versionsDir @ [''photos''], filesInDir = 0\<rparr> =
     (None, \<lparr>wfs = example_live, currentDir = versionsDir @ [''photos''], filesInDir = 1\<rparr>) \<and>
   cleanoutArchive one_day 86400000001000
     \<lparr>root = Directory [(''.stversions'',
        Directory [(''photos'', Directory [(''cat.jpg'', File ''meow'' 6 7)]),
                   (''notes.txt'', File ''todo'' 2999 3000)])],
      faults = no_faults\<rparr> =
     (None, \<lparr>root = Directory [(''.stversions'',
        Directory [(''photos'', Directory []), (''notes.txt'', File ''todo'' 2999 3000)])],
      faults = no_faults\<rparr>) \<and>
   lookup (Directory [(''.stversions'',
        Directory [(''photos'', Directory []), (''notes.txt'', File ''todo'' 2999 3000)])])
     (versionsDir @ [''photos'']) = Inr (Directory [])"
proof -
  have a: "''photos'' \<noteq> ''notes.txt''" by simp
  have b: "(7::int) < cutoff_of 86400000001000 (cleanoutDays one_day)"
    by (simp add: cutoff_example)
  have c: "\<not> (3000::int) < cutoff_of 86400000001000 (cleanoutDays one_day)"
    by (simp add: cutoff_example)
  have d: "\<not> IsDir \<lparr>IsDir = False, IsSymlink = False, ModTime = 3000\<rparr> \<and>
      \<not> ModTime \<lparr>IsDir = False, IsSymlink = False, ModTime = 3000\<rparr> < (1000::int)"
    by simp
  note w = walk_credits_last_entered_directory [OF a b c refl refl,
      of "''cat.jpg''" "''meow''" 6 "''todo''" 2999]
  from w have "walkFn 1000 (versionsDir @ [''notes.txt''])
     \<lparr>IsDir = False, IsSymlink = False, ModTime = 3000\<rparr> None
     \<lparr>wfs = example_live, currentDir = versionsDir @ [''photos''], filesInDir = 0\<rparr> =
     (None, \<lparr>wfs = example_live, currentDir = versionsDir @ [''photos''], filesInDir = 0\<rparr>
        \<lparr>filesInDir := filesInDir
           \<lparr>wfs = example_live, currentDir = versionsDir @ [''photos''], filesInDir = 0\<rparr> + 1\<rparr>)"
    using d by blast
  with w a b c show ?thesis by simp
qed

end
